theory Spec2Isabelle
  imports Complex_Main
begin

section \<open>JavaScript numbers\<close>

text \<open>
  The solver computes on JavaScript numbers. They are modelled as exact reals extended with
  the two infinities and NaN, so that every place where the source could produce a
  non-finite value is a branch of the model. Rounding, overflow of finite values and the
  sign of zero are not modelled: a finite value is the real it denotes, and zero behaves
  as JavaScript's positive zero.
\<close>

datatype jsnum = Fin real | PInf | NInf | NaN

instantiation jsnum :: "{uminus, plus, minus, times, inverse, ord}"
begin

fun uminus_jsnum :: "jsnum \<Rightarrow> jsnum" where
  "uminus_jsnum (Fin a) = Fin (- a)"
| "uminus_jsnum PInf = NInf"
| "uminus_jsnum NInf = PInf"
| "uminus_jsnum NaN = NaN"

fun plus_jsnum :: "jsnum \<Rightarrow> jsnum \<Rightarrow> jsnum" where
  "plus_jsnum (Fin a) (Fin b) = Fin (a + b)"
| "plus_jsnum NaN _ = NaN"
| "plus_jsnum _ NaN = NaN"
| "plus_jsnum PInf NInf = NaN"
| "plus_jsnum NInf PInf = NaN"
| "plus_jsnum PInf _ = PInf"
| "plus_jsnum _ PInf = PInf"
| "plus_jsnum NInf _ = NInf"
| "plus_jsnum _ NInf = NInf"

definition minus_jsnum :: "jsnum \<Rightarrow> jsnum \<Rightarrow> jsnum" where
  "minus_jsnum (a :: jsnum) b = a + (- b)"

fun times_jsnum :: "jsnum \<Rightarrow> jsnum \<Rightarrow> jsnum" where
  "times_jsnum (Fin a) (Fin b) = Fin (a * b)"
| "times_jsnum NaN _ = NaN"
| "times_jsnum _ NaN = NaN"
| "times_jsnum (Fin a) PInf = (if a = 0 then NaN else if 0 < a then PInf else NInf)"
| "times_jsnum (Fin a) NInf = (if a = 0 then NaN else if 0 < a then NInf else PInf)"
| "times_jsnum PInf (Fin b) = (if b = 0 then NaN else if 0 < b then PInf else NInf)"
| "times_jsnum NInf (Fin b) = (if b = 0 then NaN else if 0 < b then NInf else PInf)"
| "times_jsnum PInf PInf = PInf"
| "times_jsnum PInf NInf = NInf"
| "times_jsnum NInf PInf = NInf"
| "times_jsnum NInf NInf = PInf"

fun divide_jsnum :: "jsnum \<Rightarrow> jsnum \<Rightarrow> jsnum" where
  "divide_jsnum (Fin a) (Fin b) =
     (if b \<noteq> 0 then Fin (a / b)
      else if a = 0 then NaN else if 0 < a then PInf else NInf)"
| "divide_jsnum NaN _ = NaN"
| "divide_jsnum _ NaN = NaN"
| "divide_jsnum (Fin a) _ = Fin 0"
| "divide_jsnum PInf (Fin b) = (if 0 \<le> b then PInf else NInf)"
| "divide_jsnum NInf (Fin b) = (if 0 \<le> b then NInf else PInf)"
| "divide_jsnum _ _ = NaN"

definition inverse_jsnum :: "jsnum \<Rightarrow> jsnum" where
  "inverse_jsnum (a :: jsnum) = Fin 1 div a"

fun less_jsnum :: "jsnum \<Rightarrow> jsnum \<Rightarrow> bool" where
  "less_jsnum (Fin a) (Fin b) = (a < b)"
| "less_jsnum NaN _ = False"
| "less_jsnum _ NaN = False"
| "less_jsnum PInf _ = False"
| "less_jsnum _ NInf = False"
| "less_jsnum _ _ = True"

fun less_eq_jsnum :: "jsnum \<Rightarrow> jsnum \<Rightarrow> bool" where
  "less_eq_jsnum (Fin a) (Fin b) = (a \<le> b)"
| "less_eq_jsnum NaN _ = False"
| "less_eq_jsnum _ NaN = False"
| "less_eq_jsnum _ PInf = True"
| "less_eq_jsnum NInf _ = True"
| "less_eq_jsnum _ _ = False"

instance ..

end


text \<open>Truthiness of a number: zero and NaN are falsy.\<close>

fun truthy :: "jsnum \<Rightarrow> bool" where
  "truthy (Fin a) = (a \<noteq> 0)"
| "truthy NaN = False"
| "truthy _ = True"

subsection \<open>The \<open>Math\<close> functions the solver calls\<close>

definition Math_PI :: jsnum where
  "Math_PI = Fin pi"

fun Math_abs :: "jsnum \<Rightarrow> jsnum" where
  "Math_abs (Fin a) = Fin \<bar>a\<bar>"
| "Math_abs NaN = NaN"
| "Math_abs _ = PInf"

fun Math_sqrt :: "jsnum \<Rightarrow> jsnum" where
  "Math_sqrt (Fin a) = (if a < 0 then NaN else Fin (sqrt a))"
| "Math_sqrt PInf = PInf"
| "Math_sqrt _ = NaN"

fun Math_min :: "jsnum \<Rightarrow> jsnum \<Rightarrow> jsnum" where
  "Math_min NaN _ = NaN"
| "Math_min _ NaN = NaN"
| "Math_min a b = (if a < b then a else b)"

fun Math_max :: "jsnum \<Rightarrow> jsnum \<Rightarrow> jsnum" where
  "Math_max NaN _ = NaN"
| "Math_max _ NaN = NaN"
| "Math_max a b = (if b < a then a else b)"

fun Math_acos :: "jsnum \<Rightarrow> jsnum" where
  "Math_acos (Fin a) = (if - 1 \<le> a \<and> a \<le> 1 then Fin (arccos a) else NaN)"
| "Math_acos _ = NaN"

fun Math_sin :: "jsnum \<Rightarrow> jsnum" where
  "Math_sin (Fin a) = Fin (sin a)"
| "Math_sin _ = NaN"

fun Math_cos :: "jsnum \<Rightarrow> jsnum" where
  "Math_cos (Fin a) = Fin (cos a)"
| "Math_cos _ = NaN"

text \<open>
  The two-argument arctangent on the reals: the angle in \<open>(-\<pi>, \<pi>]\<close> of the point with
  abscissa \<open>x\<close> and ordinate \<open>y\<close>, and 0 at the origin.
\<close>

definition atan2 :: "real \<Rightarrow> real \<Rightarrow> real" where
  "atan2 y x =
     (if 0 < x then arctan (y / x)
      else if x < 0 then (if 0 \<le> y then arctan (y / x) + pi else arctan (y / x) - pi)
      else if 0 < y then pi / 2
      else if y < 0 then - (pi / 2)
      else 0)"

fun Math_atan2 :: "jsnum \<Rightarrow> jsnum \<Rightarrow> jsnum" where
  "Math_atan2 (Fin y) (Fin x) = Fin (atan2 y x)"
| "Math_atan2 NaN _ = NaN"
| "Math_atan2 _ NaN = NaN"
| "Math_atan2 (Fin y) PInf = Fin 0"
| "Math_atan2 (Fin y) NInf = Fin (if 0 \<le> y then pi else - pi)"
| "Math_atan2 PInf (Fin x) = Fin (pi / 2)"
| "Math_atan2 NInf (Fin x) = Fin (- (pi / 2))"
| "Math_atan2 PInf PInf = Fin (pi / 4)"
| "Math_atan2 PInf NInf = Fin (3 * pi / 4)"
| "Math_atan2 NInf PInf = Fin (- (pi / 4))"
| "Math_atan2 NInf NInf = Fin (- (3 * pi / 4))"

section \<open>The solver's data\<close>

text \<open>
  The constructor's \<open>config\<close> object: each option is a number or is omitted (\<open>None\<close>).
\<close>

record config =
  cfg_baseHeight :: "jsnum option"
  cfg_lowerArmLength :: "jsnum option"
  cfg_upperArmLength :: "jsnum option"

text \<open>The fields of an \<open>IKSolver\<close> instance.\<close>

record geometry =
  baseHeight :: jsnum
  lowerArmLength :: jsnum
  upperArmLength :: jsnum
  maxReach :: jsnum
  minReach :: jsnum

text \<open>A target or end-effector position \<open>{x, y, z}\<close>.\<close>

record position =
  pos_x :: jsnum
  pos_y :: jsnum
  pos_z :: jsnum

text \<open>
  Joint angles \<open>{base, shoulder, elbow}\<close>; the result of \<open>solve\<close> extends them with the two
  diagnostics, and \<open>forward\<close> reads the three angles of whatever object it is given.
\<close>

record angles =
  base :: jsnum
  shoulder :: jsnum
  elbow :: jsnum

record solve_result = angles +
  reachDistance :: jsnum
  isAtLimit :: bool

section \<open>The solver\<close>

text \<open>\<open>v || d\<close> on an option of the config: the default replaces an omitted or falsy value.\<close>

definition or_default :: "jsnum option \<Rightarrow> jsnum \<Rightarrow> jsnum" where
  "or_default v d = (case v of None \<Rightarrow> d | Some n \<Rightarrow> if truthy n then n else d)"

definition constructor :: "config \<Rightarrow> geometry" where
  "constructor cfg =
     (let bh = or_default (cfg_baseHeight cfg) (Fin 4);
          lower = or_default (cfg_lowerArmLength cfg) (Fin 12);
          upper = or_default (cfg_upperArmLength cfg) (Fin 10)
      in \<lparr> baseHeight = bh, lowerArmLength = lower, upperArmLength = upper,
           maxReach = lower + upper, minReach = Math_abs (lower - upper) \<rparr>)"

definition solve :: "geometry \<Rightarrow> position \<Rightarrow> solve_result" where
  "solve this target =
     (let baseAngle = Math_atan2 (pos_x target) (pos_z target);
          horizontalDistance =
            Math_sqrt (pos_x target * pos_x target + pos_z target * pos_z target);
          verticalDistance = pos_y target - baseHeight this;
          planarDistance =
            Math_sqrt (horizontalDistance * horizontalDistance
                       + verticalDistance * verticalDistance);
          reachDistance0 = planarDistance;
          reachDistance1 =
            (if maxReach this * Fin 0.999 < reachDistance0
             then maxReach this * Fin 0.999 else reachDistance0);
          reachDistance =
            (if reachDistance1 < minReach this + Fin 0.01
             then minReach this + Fin 0.01 else reachDistance1);
          cosElbowAngle =
            (reachDistance * reachDistance
             - lowerArmLength this * lowerArmLength this
             - upperArmLength this * upperArmLength this)
            / (Fin (- 2) * lowerArmLength this * upperArmLength this);
          clampedCosElbow = Math_max (Fin (- 1)) (Math_min (Fin 1) cosElbowAngle);
          elbowAngleInternal = Math_acos clampedCosElbow;
          elbowAngle = Math_PI - elbowAngleInternal;
          targetAngle = Math_atan2 verticalDistance horizontalDistance;
          cosShoulderOffset =
            (lowerArmLength this * lowerArmLength this
             + reachDistance * reachDistance
             - upperArmLength this * upperArmLength this)
            / (Fin 2 * lowerArmLength this * reachDistance);
          shoulderOffset = Math_acos (Math_max (Fin (- 1)) (Math_min (Fin 1) cosShoulderOffset));
          shoulderAngle = (Math_PI / Fin 2) - (targetAngle + shoulderOffset)
      in \<lparr> base = baseAngle, shoulder = shoulderAngle, elbow = elbowAngle,
           reachDistance = reachDistance,
           isAtLimit = (maxReach this * Fin 0.999 < planarDistance) \<rparr>)"

definition forward :: "geometry \<Rightarrow> 'a angles_scheme \<Rightarrow> position" where
  "forward this a =
     (let lowerX = lowerArmLength this * Math_sin (shoulder a);
          lowerY = lowerArmLength this * Math_cos (shoulder a);
          totalAngle = shoulder a + elbow a - Math_PI;
          upperX = upperArmLength this * Math_sin totalAngle;
          upperY = upperArmLength this * Math_cos totalAngle;
          planarX = lowerX + upperX;
          planarY = lowerY + upperY + baseHeight this
      in \<lparr> pos_x = planarX * Math_sin (base a),
           pos_y = planarY,
           pos_z = planarX * Math_cos (base a) \<rparr>)"

definition isReachable :: "geometry \<Rightarrow> position \<Rightarrow> bool" where
  "isReachable this target =
     (let horizontal = Math_sqrt (pos_x target * pos_x target + pos_z target * pos_z target);
          vertical = pos_y target - baseHeight this;
          distance = Math_sqrt (horizontal * horizontal + vertical * vertical)
      in minReach this \<le> distance \<and> distance \<le> maxReach this)"

text \<open>The default argument \<open>config = {}\<close> of the constructor.\<close>

definition empty_config :: config where
  "empty_config =
     \<lparr> cfg_baseHeight = None, cfg_lowerArmLength = None, cfg_upperArmLength = None \<rparr>"

text \<open>
  None of \<open>solve\<close>, \<open>forward\<close> and \<open>isReachable\<close> assigns a field of \<open>this\<close>. A call on an
  instance is modelled with the instance it leaves behind and the value it returns.
\<close>

datatype call = Solve position | Forward angles | IsReachable position

datatype reply = Solved solve_result | Moved position | Reachable bool

fun invoke :: "geometry \<Rightarrow> call \<Rightarrow> geometry \<times> reply" where
  "invoke this (Solve target) = (this, Solved (solve this target))"
| "invoke this (Forward a) = (this, Moved (forward this a))"
| "invoke this (IsReachable target) = (this, Reachable (isReachable this target))"

fun invoke_all :: "geometry \<Rightarrow> call list \<Rightarrow> geometry" where
  "invoke_all this [] = this"
| "invoke_all this (c # cs) = invoke_all (fst (invoke this c)) cs"

section \<open>The arm as the scene draws it\<close>

text \<open>
  \<open>createRobotArm\<close> builds the arm as a chain of groups, each placed in its parent by an
  offset along y and turned about one axis: the shoulder group at height \<open>baseHeight\<close>,
  turning about y; in it the lower-arm pivot, turning about x; in it the elbow group at
  height \<open>lowerArmLength\<close>; in it the upper-arm pivot, turning about x; in it the end
  effector at height \<open>upperArmLength\<close>. \<open>updateArmAngles\<close> sets the three rotations to
  \<open>base\<close>, \<open>shoulder\<close> and \<open>elbow\<close>. A point of a group is carried into the parent's frame
  by the group's rotation followed by its offset; the three lengths of the scene's
  \<open>ARM_CONFIG\<close> are taken from the geometry record.
\<close>

definition rotateX :: "jsnum \<Rightarrow> position \<Rightarrow> position" where
  "rotateX a p =
     \<lparr> pos_x = pos_x p,
       pos_y = pos_y p * Math_cos a - pos_z p * Math_sin a,
       pos_z = pos_y p * Math_sin a + pos_z p * Math_cos a \<rparr>"

definition rotateY :: "jsnum \<Rightarrow> position \<Rightarrow> position" where
  "rotateY a p =
     \<lparr> pos_x = pos_x p * Math_cos a + pos_z p * Math_sin a,
       pos_y = pos_y p,
       pos_z = pos_z p * Math_cos a - pos_x p * Math_sin a \<rparr>"

definition offsetY :: "jsnum \<Rightarrow> position \<Rightarrow> position" where
  "offsetY l p = p \<lparr> pos_y := pos_y p + l \<rparr>"

definition endEffector :: "geometry \<Rightarrow> 'a angles_scheme \<Rightarrow> position" where
  "endEffector arm a =
     (let inUpperArmPivot = \<lparr> pos_x = Fin 0, pos_y = upperArmLength arm, pos_z = Fin 0 \<rparr>;
          inElbowGroup = rotateX (elbow a) inUpperArmPivot;
          inLowerArmPivot = offsetY (lowerArmLength arm) inElbowGroup;
          inShoulderGroup = rotateX (shoulder a) inLowerArmPivot;
          inBaseGroup = offsetY (baseHeight arm) (rotateY (base a) inShoulderGroup)
      in inBaseGroup)"

section \<open>Arithmetic on finite numbers\<close>

lemma fin_minus [simp]: "Fin a - Fin b = Fin (a - b)"
  by (simp add: minus_jsnum_def)

lemma sq2_not_neg [simp]: "(x * x + z * z < (0::real)) = False"
  by (simp add: not_less)

lemma sq3_not_neg [simp]: "(x * x + z * z + v * v < (0::real)) = False"
  by (simp add: not_less)

lemma sqrt_sq2 [simp]: "sqrt (x * x + z * z) * sqrt (x * x + z * z) = x * x + z * z"
  using sq2_not_neg [of x z] by (simp add: not_less del: sq2_not_neg)

lemma acos_clamp_fin:
  "Math_acos (Math_max (Fin (- 1)) (Math_min (Fin 1) (Fin c)))
   = Fin (arccos (max (- 1) (min 1 c)))"
  by (simp add: max_def min_def)

lemma reach_clamp_fin:
  "(if (if Fin hi < Fin p then Fin hi else Fin p) < Fin lo then Fin lo
    else (if Fin hi < Fin p then Fin hi else Fin p)) = Fin (max lo (min hi p))"
  by (simp add: max_def min_def)

lemma constructor_empty_config [simp]:
  "constructor empty_config =
     \<lparr> baseHeight = Fin 4, lowerArmLength = Fin 12, upperArmLength = Fin 10,
       maxReach = Fin 22, minReach = Fin 2 \<rparr>"
  by (simp add: constructor_def empty_config_def or_default_def)

text \<open>
  The result of \<open>solve\<close> in closed form, once the intermediate values are known to be
  finite and no divisor is zero.
\<close>

lemma solve_staged:
  assumes H: "Math_sqrt (pos_x t * pos_x t + pos_z t * pos_z t) = Fin h"
    and V: "pos_y t - baseHeight g = Fin v"
    and P: "Math_sqrt (Fin h * Fin h + Fin v * Fin v) = Fin p"
    and hi: "maxReach g * Fin 0.999 = Fin hi"
    and lo: "minReach g + Fin 0.01 = Fin lo"
    and d: "d = max lo (min hi p)"
    and L: "lowerArmLength g = Fin l1" "upperArmLength g = Fin l2"
    and nz: "l1 \<noteq> 0" "l2 \<noteq> 0" "d \<noteq> 0"
  shows "solve g t =
    \<lparr> base = Math_atan2 (pos_x t) (pos_z t),
      shoulder = Fin (pi / 2 - (atan2 v h
                 + arccos (max (- 1) (min 1 ((l1 * l1 + d * d - l2 * l2) / (2 * l1 * d)))))),
      elbow = Fin (pi - arccos (max (- 1)
                 (min 1 ((d * d - l1 * l1 - l2 * l2) / (- 2 * l1 * l2))))),
      reachDistance = Fin d,
      isAtLimit = (hi < p) \<rparr>"
proof -
  have R: "(if (if Fin hi < Fin p then Fin hi else Fin p) < Fin lo then Fin lo
    else (if Fin hi < Fin p then Fin hi else Fin p)) = Fin d"
    unfolding d by (rule reach_clamp_fin)
  show ?thesis
    unfolding solve_def Let_def H V P hi lo R L Math_PI_def
    using nz by (simp add: acos_clamp_fin del: Math_max.simps Math_min.simps Math_acos.simps)
qed

text \<open>
  The same for a geometry as the constructor leaves it, with finite fields and positive
  link lengths: the clamped distance is positive, so no divisor is zero.
\<close>

lemma solve_positive_links:
  assumes g: "baseHeight g = Fin bh" "lowerArmLength g = Fin l1" "upperArmLength g = Fin l2"
    and inv: "maxReach g = lowerArmLength g + upperArmLength g"
      "minReach g = Math_abs (lowerArmLength g - upperArmLength g)"
    and pos: "0 < l1" "0 < l2"
    and t: "t = \<lparr> pos_x = Fin x, pos_y = Fin y, pos_z = Fin z \<rparr>"
    and h: "h = sqrt (x * x + z * z)"
    and v: "v = y - bh"
    and p: "p = sqrt (h * h + v * v)"
    and d: "d = max (\<bar>l1 - l2\<bar> + 0.01) (min ((l1 + l2) * 0.999) p)"
  shows "0 < d"
    and "solve g t =
      \<lparr> base = Fin (atan2 x z),
        shoulder = Fin (pi / 2 - (atan2 v h
                   + arccos (max (- 1) (min 1 ((l1 * l1 + d * d - l2 * l2) / (2 * l1 * d)))))),
        elbow = Fin (pi - arccos (max (- 1)
                   (min 1 ((d * d - l1 * l1 - l2 * l2) / (- 2 * l1 * l2))))),
        reachDistance = Fin d,
        isAtLimit = ((l1 + l2) * 0.999 < p) \<rparr>"
proof -
  have "\<bar>l1 - l2\<bar> + 0.01 \<le> d"
    unfolding d by (rule max.cobounded1)
  moreover have "0 < \<bar>l1 - l2\<bar> + 0.01"
    by (simp add: add_nonneg_pos)
  ultimately show dpos: "0 < d"
    by (rule less_le_trans [rotated])
  have "solve g t =
      \<lparr> base = Math_atan2 (pos_x t) (pos_z t),
        shoulder = Fin (pi / 2 - (atan2 v h
                   + arccos (max (- 1) (min 1 ((l1 * l1 + d * d - l2 * l2) / (2 * l1 * d)))))),
        elbow = Fin (pi - arccos (max (- 1)
                   (min 1 ((d * d - l1 * l1 - l2 * l2) / (- 2 * l1 * l2))))),
        reachDistance = Fin d,
        isAtLimit = ((l1 + l2) * 0.999 < p) \<rparr>"
    apply (rule solve_staged [where d = d])
    using g inv pos t dpos by (simp_all add: h v p d)
  then show "solve g t =
      \<lparr> base = Fin (atan2 x z),
        shoulder = Fin (pi / 2 - (atan2 v h
                   + arccos (max (- 1) (min 1 ((l1 * l1 + d * d - l2 * l2) / (2 * l1 * d)))))),
        elbow = Fin (pi - arccos (max (- 1)
                   (min 1 ((d * d - l1 * l1 - l2 * l2) / (- 2 * l1 * l2))))),
        reachDistance = Fin d,
        isAtLimit = ((l1 + l2) * 0.999 < p) \<rparr>"
    by (simp add: t)
qed

lemma fst_invoke: "fst (invoke g c) = g"
  by (cases c) simp_all

lemma invoke_all_same: "invoke_all g cs = g"
  by (induction cs) (simp_all add: fst_invoke)

section \<open>The geometry of the two links\<close>


text \<open>
  Within the triangle inequality both cosines of the law of cosines lie in \<open>[-1, 1]\<close>, so
  the clamps before \<open>acos\<close> change nothing.
\<close>

lemma cos_elbow_range:
  fixes l1 l2 d :: real
  assumes "0 < l1" "0 < l2" "\<bar>l1 - l2\<bar> \<le> d" "d \<le> l1 + l2"
  shows "- 1 \<le> (d * d - l1 * l1 - l2 * l2) / (- 2 * l1 * l2)"
    and "(d * d - l1 * l1 - l2 * l2) / (- 2 * l1 * l2) \<le> 1"
proof -
  have pos: "0 < 2 * l1 * l2" using assms by simp
  have d0: "0 \<le> d" using assms(3) by linarith
  have up: "d * d \<le> (l1 + l2) * (l1 + l2)"
    using d0 assms(4) by (intro mult_mono) auto
  have lo: "(l1 - l2) * (l1 - l2) \<le> d * d"
  proof -
    have "\<bar>l1 - l2\<bar> * \<bar>l1 - l2\<bar> \<le> d * d"
      using assms(3) by (intro mult_mono) auto
    then show ?thesis by (simp add: abs_mult_self_eq)
  qed
  have eq: "(d * d - l1 * l1 - l2 * l2) / (- 2 * l1 * l2)
      = (l1 * l1 + l2 * l2 - d * d) / (2 * l1 * l2)"
  proof -
    have "l1 \<noteq> 0" "l2 \<noteq> 0" using assms by simp_all
    then show ?thesis by (simp add: field_simps)
  qed
  show "- 1 \<le> (d * d - l1 * l1 - l2 * l2) / (- 2 * l1 * l2)"
    unfolding eq using pos up by (simp add: le_divide_eq algebra_simps)
  show "(d * d - l1 * l1 - l2 * l2) / (- 2 * l1 * l2) \<le> 1"
    unfolding eq using pos lo by (simp add: divide_le_eq algebra_simps)
qed

lemma cos_shoulder_range:
  fixes l1 l2 d :: real
  assumes "0 < l1" "0 < l2" "0 < d" "\<bar>l1 - l2\<bar> \<le> d" "d \<le> l1 + l2"
  shows "- 1 \<le> (l1 * l1 + d * d - l2 * l2) / (2 * l1 * d)"
    and "(l1 * l1 + d * d - l2 * l2) / (2 * l1 * d) \<le> 1"
proof -
  have pos: "0 < 2 * l1 * d" using assms by simp
  have a: "l2 * l2 \<le> (l1 + d) * (l1 + d)"
    using assms by (intro mult_mono) auto
  have "\<bar>l1 - d\<bar> \<le> l2" using assms by linarith
  then have "\<bar>l1 - d\<bar> * \<bar>l1 - d\<bar> \<le> l2 * l2"
    using assms by (intro mult_mono) auto
  then have b: "(l1 - d) * (l1 - d) \<le> l2 * l2"
    by (simp add: abs_mult_self_eq)
  show "- 1 \<le> (l1 * l1 + d * d - l2 * l2) / (2 * l1 * d)"
    using pos a by (simp add: le_divide_eq algebra_simps)
  show "(l1 * l1 + d * d - l2 * l2) / (2 * l1 * d) \<le> 1"
    using pos b by (simp add: divide_le_eq algebra_simps)
qed

lemma sin_arccos_sq:
  assumes "- 1 \<le> c" "c \<le> 1"
  shows "(sin (arccos c))\<^sup>2 = 1 - c * c"
proof -
  have "c\<^sup>2 \<le> 1"
    using assms by (simp add: abs_square_le_1 abs_le_iff)
  then have "0 \<le> 1 - c\<^sup>2"
    by simp
  then show ?thesis
    using assms by (simp add: sin_arccos power2_eq_square)
qed

text \<open>
  The projection of the links on the line to the target, and the law of sines, for the
  triangle of the two links and the reach.
\<close>

lemma triangle_identities:
  fixes l1 l2 d :: real
  assumes pos: "0 < l1" "0 < l2" "0 < d" and tri: "\<bar>l1 - l2\<bar> \<le> d" "d \<le> l1 + l2"
    and cE: "cE = (d * d - l1 * l1 - l2 * l2) / (- 2 * l1 * l2)"
    and cS: "cS = (l1 * l1 + d * d - l2 * l2) / (2 * l1 * d)"
  shows "l1 - l2 * cE = cS * d"
    and "l2 * sin (arccos cE) = d * sin (arccos cS)"
proof -
  have rE: "- 1 \<le> cE" "cE \<le> 1"
    unfolding cE using cos_elbow_range [OF pos(1,2) tri] by simp_all
  have rS: "- 1 \<le> cS" "cS \<le> 1"
    unfolding cS using cos_shoulder_range [OF pos tri] by simp_all
  show "l1 - l2 * cE = cS * d"
    unfolding cE cS using pos by (simp add: field_simps)
  have sq: "(l2 * sin (arccos cE))\<^sup>2 = (d * sin (arccos cS))\<^sup>2"
  proof -
    have "(l2 * sin (arccos cE))\<^sup>2 = l2 * l2 * (1 - cE * cE)"
      using rE by (simp add: sin_arccos_sq power_mult_distrib power2_eq_square [of l2])
    also have "\<dots> = d * d * (1 - cS * cS)"
      unfolding cE cS using pos by (simp add: field_simps)
    also have "\<dots> = (d * sin (arccos cS))\<^sup>2"
      using rS by (simp add: sin_arccos_sq power_mult_distrib power2_eq_square [of d])
    finally show ?thesis .
  qed
  have "0 \<le> l2 * sin (arccos cE)" "0 \<le> d * sin (arccos cS)"
    using pos rE rS by (simp_all add: sin_ge_zero arccos_lbound arccos_ubound)
  with sq show "l2 * sin (arccos cE) = d * sin (arccos cS)"
    by (simp add: power2_eq_iff_nonneg)
qed

text \<open>
  With the lower link at \<open>shoulder\<close> from the vertical and the upper link at
  \<open>shoulder + elbow\<close>, the two links end at horizontal distance \<open>h\<close> and height \<open>v\<close>.
\<close>

lemma planar_chain:
  fixes l1 l2 d :: real
  assumes pos: "0 < l1" "0 < l2" "0 < d" and tri: "\<bar>l1 - l2\<bar> \<le> d" "d \<le> l1 + l2"
    and cE: "cE = (d * d - l1 * l1 - l2 * l2) / (- 2 * l1 * l2)"
    and cS: "cS = (l1 * l1 + d * d - l2 * l2) / (2 * l1 * d)"
    and ta: "cos ta = h / d" "sin ta = v / d"
    and s: "s = pi / 2 - (ta + arccos cS)"
    and e: "e = pi - arccos cE"
  shows "l1 * sin s + l2 * sin (s + e) = h"
    and "l1 * cos s + l2 * cos (s + e) = v"
proof -
  define sa where "sa = sin (arccos cS)"
  define sg where "sg = sin (arccos cE)"
  have rE: "- 1 \<le> cE" "cE \<le> 1"
    unfolding cE using cos_elbow_range [OF pos(1,2) tri] by simp_all
  have rS: "- 1 \<le> cS" "cS \<le> 1"
    unfolding cS using cos_shoulder_range [OF pos tri] by simp_all
  have ca: "cos (arccos cS) = cS" and cg: "cos (arccos cE) = cE"
    using rE rS by simp_all
  note tri_id = triangle_identities [OF pos tri cE cS, folded sa_def sg_def]
  have unit: "sa * sa + cS * cS = 1"
    using sin_arccos_sq [OF rS] by (simp add: sa_def power2_eq_square)
  have A: "l1 * cS - l2 * (cS * cE - sa * sg) = d"
  proof -
    have "l1 * cS - l2 * (cS * cE - sa * sg) = cS * (l1 - l2 * cE) + sa * (l2 * sg)"
      by (simp add: algebra_simps)
    also have "\<dots> = cS * (cS * d) + sa * (d * sa)"
      by (simp only: tri_id)
    also have "\<dots> = d * (sa * sa + cS * cS)"
      by (simp add: algebra_simps)
    finally show ?thesis by (simp add: unit)
  qed
  have B: "l1 * sa - l2 * (sa * cE + cS * sg) = 0"
  proof -
    have "l1 * sa - l2 * (sa * cE + cS * sg) = sa * (l1 - l2 * cE) - cS * (l2 * sg)"
      by (simp add: algebra_simps)
    also have "\<dots> = sa * (cS * d) - cS * (d * sa)"
      by (simp only: tri_id)
    finally show ?thesis by simp
  qed
  have sin_s: "sin s = cos ta * cS - sin ta * sa"
    unfolding s by (simp add: sin_diff cos_add ca sa_def)
  have cos_s: "cos s = sin ta * cS + cos ta * sa"
    unfolding s by (simp add: cos_diff sin_add ca sa_def)
  have cos_e: "cos e = - cE" and sin_e: "sin e = sg"
    unfolding e sg_def using cg by simp_all
  have sin_se: "sin (s + e) = - (cos ta * (cS * cE - sa * sg) - sin ta * (sa * cE + cS * sg))"
    unfolding sin_add sin_s cos_s cos_e sin_e by (simp add: algebra_simps)
  have cos_se: "cos (s + e) = - (sin ta * (cS * cE - sa * sg) + cos ta * (sa * cE + cS * sg))"
    unfolding cos_add sin_s cos_s cos_e sin_e by (simp add: algebra_simps)
  have "l1 * sin s + l2 * sin (s + e)
      = cos ta * (l1 * cS - l2 * (cS * cE - sa * sg)) - sin ta * (l1 * sa - l2 * (sa * cE + cS * sg))"
    unfolding sin_s sin_se by (simp add: algebra_simps)
  also have "\<dots> = h"
    unfolding A B using pos ta by simp
  finally show "l1 * sin s + l2 * sin (s + e) = h" .
  have "l1 * cos s + l2 * cos (s + e)
      = sin ta * (l1 * cS - l2 * (cS * cE - sa * sg)) + cos ta * (l1 * sa - l2 * (sa * cE + cS * sg))"
    unfolding cos_s cos_se by (simp add: algebra_simps)
  also have "\<dots> = v"
    unfolding A B using pos ta by simp
  finally show "l1 * cos s + l2 * cos (s + e) = v" .
qed

lemma endEffector_fin:
  assumes "baseHeight g = Fin bh" "lowerArmLength g = Fin l1" "upperArmLength g = Fin l2"
    and "base a = Fin b" "shoulder a = Fin s" "elbow a = Fin e"
  shows "endEffector g a =
    \<lparr> pos_x = Fin ((l1 * sin s + l2 * sin (s + e)) * sin b),
      pos_y = Fin (l1 * cos s + l2 * cos (s + e) + bh),
      pos_z = Fin ((l1 * sin s + l2 * sin (s + e)) * cos b) \<rparr>"
  using assms
  by (simp add: endEffector_def Let_def rotateX_def rotateY_def offsetY_def
      sin_add cos_add algebra_simps)



section \<open>Numeric bounds\<close>


lemma sqrt_484: "sqrt 484 = 22"
  by (rule real_sqrt_unique) simp_all






section \<open>Round trip\<close>




text \<open>
  Inside a clamping margin the solved pose sits at the clamped distance, not on the
  target: under the default geometry the target \<open>(0, 4, 22)\<close>, at distance \<open>maxReach\<close>, is
  missed by 0.022.
\<close>

lemma clamped_target_missed:
  "endEffector (constructor empty_config)
     (solve (constructor empty_config) \<lparr> pos_x = Fin 0, pos_y = Fin 4, pos_z = Fin 22 \<rparr>)
   = \<lparr> pos_x = Fin 0, pos_y = Fin 4, pos_z = Fin 21.978 \<rparr>"
proof -
  define g where "g = constructor empty_config"
  define t where "t = \<lparr> pos_x = Fin 0, pos_y = Fin 4, pos_z = Fin 22 \<rparr>"
  define d :: real where "d = 21.978"
  define cE where "cE = (d * d - 12 * 12 - 10 * 10) / (- 2 * 12 * 10)"
  define cS where "cS = (12 * 12 + d * d - 10 * 10) / (2 * 12 * d)"
  define s where "s = pi / 2 - (atan2 0 22 + arccos cS)"
  define e where "e = pi - arccos cE"
  have g: "baseHeight g = Fin 4" "lowerArmLength g = Fin 12" "upperArmLength g = Fin 10"
    "maxReach g = lowerArmLength g + upperArmLength g"
    "minReach g = Math_abs (lowerArmLength g - upperArmLength g)"
    by (simp_all add: g_def)
  have h: "(22::real) = sqrt (0 * 0 + 22 * 22)" and v: "(0::real) = 4 - 4"
    and p: "(22::real) = sqrt (22 * 22 + 0 * 0)"
    and d: "d = max (\<bar>12 - 10\<bar> + 0.01) (min ((12 + 10) * 0.999) 22)"
    by (simp_all add: sqrt_484 d_def)
  have dpos: "0 < d" and tri: "\<bar>12 - 10\<bar> \<le> d" "d \<le> 12 + 10"
    by (simp_all add: d_def)
  have rE: "- 1 \<le> cE" "cE \<le> 1"
    unfolding cE_def using cos_elbow_range [OF _ _ tri] by simp_all
  have rS: "- 1 \<le> cS" "cS \<le> 1"
    unfolding cS_def using cos_shoulder_range [OF _ _ dpos tri] by simp_all
  have clamp: "max (- 1) (min 1 cE) = cE" "max (- 1) (min 1 cS) = cS"
    using rE rS by simp_all
  have "solve g t =
      \<lparr> base = Fin (atan2 0 22),
        shoulder = Fin (pi / 2 - (atan2 0 22 + arccos (max (- 1) (min 1 cS)))),
        elbow = Fin (pi - arccos (max (- 1) (min 1 cE))),
        reachDistance = Fin d, isAtLimit = ((12 + 10) * 0.999 < (22::real)) \<rparr>"
    unfolding cE_def cS_def by (rule solve_positive_links (2) [OF g _ _ t_def h v p d]) simp_all
  then have solved: "solve g t =
      \<lparr> base = Fin (atan2 0 22), shoulder = Fin s, elbow = Fin e,
        reachDistance = Fin d, isAtLimit = ((12 + 10) * 0.999 < (22::real)) \<rparr>"
    unfolding clamp s_def e_def .
  have ta: "cos (atan2 0 22) = d / d" "sin (atan2 0 22) = 0 / d"
    using dpos by (simp_all add: atan2_def)
  note chain = planar_chain [OF _ _ dpos tri cE_def cS_def ta s_def e_def, simplified]
  have "endEffector g (solve g t) =
      \<lparr> pos_x = Fin ((12 * sin s + 10 * sin (s + e)) * sin (atan2 0 22)),
        pos_y = Fin (12 * cos s + 10 * cos (s + e) + 4),
        pos_z = Fin ((12 * sin s + 10 * sin (s + e)) * cos (atan2 0 22)) \<rparr>"
    unfolding solved by (rule endEffector_fin [OF g(1-3)]) simp_all
  also have "\<dots> = \<lparr> pos_x = Fin 0, pos_y = Fin 4, pos_z = Fin d \<rparr>"
    unfolding chain by (simp add: atan2_def)
  finally show ?thesis
    by (simp add: g_def t_def d_def)
qed

section \<open>Distance clamping\<close>

text \<open>
  Claim C2. For a finite target and a geometry with finite base height and reach bounds,
  \<open>solve\<close> returns as \<open>reachDistance\<close> the planar distance
  \<open>sqrt (x\<^sup>2 + z\<^sup>2 + (y - baseHeight)\<^sup>2)\<close> clamped into
  \<open>[minReach + 0.01, maxReach \<times> 0.999]\<close>; when that interval is not empty, the returned
  \<open>reachDistance\<close> lies in it.
\<close>

theorem solve_reachDistance_clamped:
  assumes "baseHeight g = Fin bh" "maxReach g = Fin mx" "minReach g = Fin mn"
    and "t = \<lparr> pos_x = Fin x, pos_y = Fin y, pos_z = Fin z \<rparr>"
  shows "reachDistance (solve g t)
           = Fin (max (mn + 0.01) (min (mx * 0.999) (sqrt (x\<^sup>2 + z\<^sup>2 + (y - bh)\<^sup>2))))
         \<and> (minReach g + Fin 0.01 \<le> maxReach g * Fin 0.999 \<longrightarrow>
              minReach g + Fin 0.01 \<le> reachDistance (solve g t)
              \<and> reachDistance (solve g t) \<le> maxReach g * Fin 0.999)"
  using assms
  by (simp add: solve_def Let_def max_def min_def power2_eq_square)

theorem solve_reachDistance_clamped_witness:
  "baseHeight (constructor empty_config) = Fin 4
   \<and> maxReach (constructor empty_config) = Fin 22
   \<and> minReach (constructor empty_config) = Fin 2
   \<and> minReach (constructor empty_config) + Fin 0.01
        \<le> maxReach (constructor empty_config) * Fin 0.999
   \<and> reachDistance (solve (constructor empty_config)
        \<lparr> pos_x = Fin 0, pos_y = Fin 4, pos_z = Fin 22 \<rparr>) = Fin 21.978
   \<and> minReach (constructor empty_config) + Fin 0.01
        \<le> reachDistance (solve (constructor empty_config)
             \<lparr> pos_x = Fin 0, pos_y = Fin 4, pos_z = Fin 22 \<rparr>)
   \<and> reachDistance (solve (constructor empty_config)
        \<lparr> pos_x = Fin 0, pos_y = Fin 4, pos_z = Fin 22 \<rparr>)
        \<le> maxReach (constructor empty_config) * Fin 0.999"
  using solve_reachDistance_clamped [of "constructor empty_config" 4 22 2
      "\<lparr> pos_x = Fin 0, pos_y = Fin 4, pos_z = Fin 22 \<rparr>" 0 4 22]
  by simp

section \<open>The limit flag\<close>

text \<open>
  Claim C3, as amended. For a finite target and a geometry with finite base height,
  \<open>isAtLimit\<close> holds exactly when the unclamped planar distance exceeds
  \<open>maxReach \<times> 0.999\<close>. On a geometry with \<open>minReach \<le> maxReach \<times> 0.999\<close>, a target
  whose planar distance is below \<open>minReach\<close> is not flagged.
\<close>

theorem solve_isAtLimit:
  assumes "baseHeight g = Fin bh"
    and "t = \<lparr> pos_x = Fin x, pos_y = Fin y, pos_z = Fin z \<rparr>"
  shows "isAtLimit (solve g t)
           = (maxReach g * Fin 0.999 < Fin (sqrt (x\<^sup>2 + z\<^sup>2 + (y - bh)\<^sup>2)))
         \<and> (minReach g \<le> maxReach g * Fin 0.999 \<longrightarrow>
              Fin (sqrt (x\<^sup>2 + z\<^sup>2 + (y - bh)\<^sup>2)) < minReach g \<longrightarrow>
              \<not> isAtLimit (solve g t))"
proof -
  have flag: "isAtLimit (solve g t)
           = (maxReach g * Fin 0.999 < Fin (sqrt (x\<^sup>2 + z\<^sup>2 + (y - bh)\<^sup>2)))"
    using assms by (simp add: solve_def Let_def power2_eq_square)
  have "\<not> (a \<le> b \<and> Fin p < a \<and> b < Fin p)" for a b p
    by (cases a; cases b) auto
  with flag show ?thesis
    by blast
qed

theorem solve_isAtLimit_witness:
  "baseHeight (constructor empty_config) = Fin 4
   \<and> minReach (constructor empty_config) \<le> maxReach (constructor empty_config) * Fin 0.999
   \<and> Fin (sqrt (0\<^sup>2 + 1\<^sup>2 + (4 - 4)\<^sup>2)) < minReach (constructor empty_config)
   \<and> \<not> isAtLimit (solve (constructor empty_config)
          \<lparr> pos_x = Fin 0, pos_y = Fin 4, pos_z = Fin 1 \<rparr>)"
  using solve_isAtLimit [of "constructor empty_config" 4
      "\<lparr> pos_x = Fin 0, pos_y = Fin 4, pos_z = Fin 1 \<rparr>" 0 4 1]
  by simp

text \<open>
  The claim as stated, for every geometry, fails: with link lengths 3000 and 1 the
  threshold \<open>maxReach \<times> 0.999 = 2997.999\<close> lies below \<open>minReach = 2999\<close>, and the target
  \<open>(0, 4, 2998)\<close>, at distance 2998 below \<open>minReach\<close>, is flagged.
\<close>

theorem isAtLimit_under_reach_counterexample:
  "Fin (sqrt (0\<^sup>2 + 2998\<^sup>2 + (4 - 4)\<^sup>2))
     < minReach (constructor \<lparr> cfg_baseHeight = None,
         cfg_lowerArmLength = Some (Fin 3000), cfg_upperArmLength = Some (Fin 1) \<rparr>)
   \<and> isAtLimit (solve (constructor \<lparr> cfg_baseHeight = None,
         cfg_lowerArmLength = Some (Fin 3000), cfg_upperArmLength = Some (Fin 1) \<rparr>)
       \<lparr> pos_x = Fin 0, pos_y = Fin 4, pos_z = Fin 2998 \<rparr>)"
  by (simp add: constructor_def or_default_def solve_def Let_def)

section \<open>Boundary behaviour\<close>



section \<open>Reachability\<close>

text \<open>
  Claim C6. For a finite target and a geometry with finite base height and reach bounds,
  \<open>isReachable\<close> holds exactly when
  \<open>minReach \<le> sqrt (x\<^sup>2 + z\<^sup>2 + (y - baseHeight)\<^sup>2) \<le> maxReach\<close>, the distance taken without
  clamping; so it is false below \<open>minReach\<close> and false above \<open>maxReach\<close>.
\<close>

theorem isReachable_iff:
  assumes "baseHeight g = Fin bh" "maxReach g = Fin mx" "minReach g = Fin mn"
    and "t = \<lparr> pos_x = Fin x, pos_y = Fin y, pos_z = Fin z \<rparr>"
  shows "isReachable g t
           = (mn \<le> sqrt (x\<^sup>2 + z\<^sup>2 + (y - bh)\<^sup>2) \<and> sqrt (x\<^sup>2 + z\<^sup>2 + (y - bh)\<^sup>2) \<le> mx)
         \<and> (sqrt (x\<^sup>2 + z\<^sup>2 + (y - bh)\<^sup>2) < mn \<longrightarrow> \<not> isReachable g t)
         \<and> (mx < sqrt (x\<^sup>2 + z\<^sup>2 + (y - bh)\<^sup>2) \<longrightarrow> \<not> isReachable g t)"
  using assms
  by (auto simp add: isReachable_def Let_def power2_eq_square)

theorem isReachable_iff_witness:
  "isReachable (constructor empty_config) \<lparr> pos_x = Fin 0, pos_y = Fin 4, pos_z = Fin 20 \<rparr>
   \<and> \<not> isReachable (constructor empty_config) \<lparr> pos_x = Fin 0, pos_y = Fin 4, pos_z = Fin 1 \<rparr>
   \<and> \<not> isReachable (constructor empty_config) \<lparr> pos_x = Fin 0, pos_y = Fin 4, pos_z = Fin 23 \<rparr>"
  using isReachable_iff [of "constructor empty_config" 4 22 2
      "\<lparr> pos_x = Fin 0, pos_y = Fin 4, pos_z = Fin 20 \<rparr>" 0 4 20]
    isReachable_iff [of "constructor empty_config" 4 22 2
      "\<lparr> pos_x = Fin 0, pos_y = Fin 4, pos_z = Fin 1 \<rparr>" 0 4 1]
    isReachable_iff [of "constructor empty_config" 4 22 2
      "\<lparr> pos_x = Fin 0, pos_y = Fin 4, pos_z = Fin 23 \<rparr>" 0 4 23]
  by simp

section \<open>Base yaw\<close>


section \<open>Finite results\<close>



section \<open>The constructor\<close>

text \<open>
  Claim C9. The constructor takes each of \<open>baseHeight\<close>, \<open>lowerArmLength\<close> and
  \<open>upperArmLength\<close> from the config, or 4, 12 and 10 where the option is omitted (or
  falsy); it sets \<open>maxReach\<close> to the sum of the two link lengths and \<open>minReach\<close> to the
  absolute value of their difference. No call of \<open>solve\<close>, \<open>forward\<close> or \<open>isReachable\<close>, and
  no sequence of such calls, changes any of the five fields.
\<close>

theorem constructor_postcondition:
  "baseHeight (constructor cfg)
     = (case cfg_baseHeight cfg of None \<Rightarrow> Fin 4
        | Some n \<Rightarrow> if truthy n then n else Fin 4)
   \<and> lowerArmLength (constructor cfg)
     = (case cfg_lowerArmLength cfg of None \<Rightarrow> Fin 12
        | Some n \<Rightarrow> if truthy n then n else Fin 12)
   \<and> upperArmLength (constructor cfg)
     = (case cfg_upperArmLength cfg of None \<Rightarrow> Fin 10
        | Some n \<Rightarrow> if truthy n then n else Fin 10)
   \<and> maxReach (constructor cfg)
     = lowerArmLength (constructor cfg) + upperArmLength (constructor cfg)
   \<and> minReach (constructor cfg)
     = Math_abs (lowerArmLength (constructor cfg) - upperArmLength (constructor cfg))
   \<and> constructor empty_config
     = \<lparr> baseHeight = Fin 4, lowerArmLength = Fin 12, upperArmLength = Fin 10,
         maxReach = Fin 22, minReach = Fin 2 \<rparr>
   \<and> fst (invoke (constructor cfg) c) = constructor cfg
   \<and> invoke_all (constructor cfg) cs = constructor cfg"
  by (simp add: constructor_def or_default_def Let_def fst_invoke invoke_all_same
      empty_config_def)

text \<open>
  Claim C10. A config option given as 0 is replaced by the default, as an omitted one is:
  \<open>{lowerArmLength: 0}\<close> yields \<open>lowerArmLength = 12\<close>. A negative value is kept as it is.
\<close>

theorem constructor_falsy_default:
  assumes "a < 0"
  shows "baseHeight (constructor (cfg \<lparr> cfg_baseHeight := Some (Fin 0) \<rparr>)) = Fin 4
    \<and> lowerArmLength (constructor (cfg \<lparr> cfg_lowerArmLength := Some (Fin 0) \<rparr>)) = Fin 12
    \<and> upperArmLength (constructor (cfg \<lparr> cfg_upperArmLength := Some (Fin 0) \<rparr>)) = Fin 10
    \<and> baseHeight (constructor (cfg \<lparr> cfg_baseHeight := Some (Fin a) \<rparr>)) = Fin a
    \<and> lowerArmLength (constructor (cfg \<lparr> cfg_lowerArmLength := Some (Fin a) \<rparr>)) = Fin a
    \<and> upperArmLength (constructor (cfg \<lparr> cfg_upperArmLength := Some (Fin a) \<rparr>)) = Fin a"
  using assms by (simp add: constructor_def or_default_def Let_def)

theorem constructor_falsy_default_witness:
  "(- 12 :: real) < 0
   \<and> lowerArmLength (constructor \<lparr> cfg_baseHeight = None,
        cfg_lowerArmLength = Some (Fin 0), cfg_upperArmLength = None \<rparr>) = Fin 12
   \<and> lowerArmLength (constructor \<lparr> cfg_baseHeight = None,
        cfg_lowerArmLength = Some (Fin (- 12)), cfg_upperArmLength = None \<rparr>) = Fin (- 12)"
  using constructor_falsy_default [of "- 12" empty_config]
  by (simp add: empty_config_def)

end
